theory Spec2Isabelle
  imports Main "HOL-Library.Sublist" "HOL-Library.AList"
begin

section \<open>Python values used by yt\_downloader.py\<close>

text \<open>
  Exceptions are values. Every class below derives from Python's \<open>Exception\<close>, so the
  \<open>except Exception\<close> clauses of the module catch all of them. \<open>str_exn\<close> is \<open>str(e)\<close>:
  the message, and for a \<open>KeyError\<close> the repr of the missing key.
\<close>

datatype exn =
    ValueError string
  | KeyError string
  | AttributeError string
  | TypeError string
  | OSError string
  | Exception string

fun str_exn :: "exn \<Rightarrow> string" where
  "str_exn (ValueError m) = m"
| "str_exn (KeyError k) = [CHR 0x27] @ k @ [CHR 0x27]"
| "str_exn (AttributeError m) = m"
| "str_exn (TypeError m) = m"
| "str_exn (OSError m) = m"
| "str_exn (Exception m) = m"

text \<open>
  A \<open>str\<close> is a list of characters, one \<open>char\<close> per code point below 256.
  \<open>py_isspace\<close> is \<open>str.isspace\<close> on those code points (tab to carriage return, the
  four separators 28 to 31, space, NEL and the no-break space), and \<open>strip\<close> is
  \<open>str.strip()\<close> without an argument.
\<close>

definition py_isspace :: "char \<Rightarrow> bool" where
  "py_isspace c =
     (let n = (of_char c :: nat)
      in (9 \<le> n \<and> n \<le> 13) \<or> (28 \<le> n \<and> n \<le> 32) \<or> n = 133 \<or> n = 160)"

definition strip :: "string \<Rightarrow> string" where
  "strip s = rev (dropWhile py_isspace (rev (dropWhile py_isspace s)))"

definition LF :: char where
  "LF = CHR 0x0A"

section \<open>Task, result and provider data\<close>

text \<open>
  A task is a dict. Each field is the value stored under the key of the same name, \<open>None\<close>
  when the dict has no such key; a value that is present has the type the annotations of
  \<open>yt_downloader\<close> give it. For \<open>title\<close> a missing key and a stored Python \<open>None\<close>
  coincide, as they do under \<open>task.get("title")\<close>.
\<close>

record task =
  url :: "string option"
  target_dir :: "string option"
  only_audio :: "bool option"
  quality :: "string option"
  title :: "string option"

text \<open>
  The dict a worker returns: \<open>{"url": ..., "path": ...}\<close> or \<open>{"url": ..., "error": ...}\<close>.
\<close>

datatype result =
    Success (result_url: string) (result_path: string)
  | Failure (result_url: string) (result_error: string)

text \<open>The option dict handed to \<open>yt_dlp.YoutubeDL\<close>; two keys exist in audio mode only.\<close>

record ydl_opts =
  retries :: nat
  fragment_retries :: nat
  socket_timeout :: nat
  ignoreerrors :: bool
  continuedl :: bool
  format :: string
  outtmpl :: string
  postprocessors :: "(string \<times> string) list list"
  extract_audio :: "bool option"
  keepvideo :: "bool option"
  writesubtitles :: bool
  writeautomaticsub :: bool

text \<open>
  What \<open>extract_info\<close> returns, as far as \<open>yt_downloader\<close> reads it: the list under
  \<open>requested_downloads\<close> (each entry with or without a \<open>filepath\<close>) and the \<open>filename\<close>.
\<close>

record download =
  filepath :: "string option"

record info_dict =
  requested_downloads :: "download list option"
  filename :: "string option"

section \<open>The environment\<close>

text \<open>
  Every call that leaves the process is recorded as an event, in the order it is made.
\<close>

datatype event =
    Mkdir string
  | ExtractInfo string ydl_opts
  | Glob string
  | Exists string
  | Stat string
  | AppendLog string

text \<open>
  The state threaded through the code: the events so far and the text of
  \<open>downloads.txt\<close>.
\<close>

record io =
  trace :: "event list"
  log :: string

text \<open>
  The environment answers each call from the events made so far, so that a file system
  changed by an earlier fetch or task can answer differently later.
  \<^item> \<open>Path\<close> and \<open>joinpath\<close> are \<open>pathlib.Path(...)\<close> and its \<open>/\<close> operator, on the string
    form of a path.
  \<^item> \<open>mkdir\<close> is \<open>mkdir(parents=True, exist_ok=True)\<close>: \<open>Some e\<close> when it raises.
  \<^item> \<open>extract_info\<close> stands for building the \<open>YoutubeDL\<close> object and calling
    \<open>extract_info(url, download=True)\<close>: it raises, or returns an info dict, or returns
    \<open>None\<close> (what yt-dlp does under \<open>ignoreerrors\<close>).
  \<^item> \<open>glob\<close> is \<open>glob("*")\<close>, \<open>exists\<close> is \<open>Path.exists\<close>, both taken not to raise.
  \<^item> \<open>stat_mtime\<close> is \<open>stat().st_mtime\<close>, a time stamp of which only the order is used,
    read as an integer.
  \<^item> \<open>append_log\<close> is opening \<open>downloads.txt\<close> for appending, writing the text and
    closing: \<open>Some e\<close> when that raises, in which case nothing is taken to be written.
\<close>

record env =
  Path :: "string \<Rightarrow> string"
  joinpath :: "string \<Rightarrow> string \<Rightarrow> string"
  mkdir :: "event list \<Rightarrow> string \<Rightarrow> exn option"
  extract_info :: "event list \<Rightarrow> string \<Rightarrow> ydl_opts \<Rightarrow> exn + info_dict option"
  glob :: "event list \<Rightarrow> string \<Rightarrow> string list"
  exists :: "event list \<Rightarrow> string \<Rightarrow> bool"
  stat_mtime :: "event list \<Rightarrow> string \<Rightarrow> exn + int"
  append_log :: "event list \<Rightarrow> string \<Rightarrow> exn option"

definition emit :: "event \<Rightarrow> io \<Rightarrow> io" where
  "emit ev s = s\<lparr>trace := trace s @ [ev]\<rparr>"

section \<open>The media fetch adapter\<close>

text \<open>
  \<open>_prepare_download_options\<close>, key by key. \<open>if title\<close> holds for a string that is
  not empty; the path written under \<open>outtmpl\<close> is the string form of the joined path.
\<close>

definition prepare_download_options ::
  "env \<Rightarrow> string \<Rightarrow> bool \<Rightarrow> string \<Rightarrow> string option \<Rightarrow> ydl_opts" where
  "prepare_download_options E d audio q ttl =
     \<lparr> retries = 10,
       fragment_retries = 10,
       socket_timeout = 30,
       ignoreerrors = True,
       continuedl = True,
       format =
         (if audio then (if q = ''highest'' then ''bestaudio'' else ''worstaudio'')
          else (if q = ''highest''
                then ''bestvideo[ext=mp4]+bestaudio[ext=m4a]/best[ext=mp4]''
                else ''worstvideo[ext=mp4]+worstaudio[ext=m4a]/worst[ext=mp4]'')),
       outtmpl =
         (case ttl of
            None \<Rightarrow> joinpath E d (if audio then ''%(title)s.%(ext)s'' else ''%(title)s.mp4'')
          | Some t \<Rightarrow>
              (if t \<noteq> [] then joinpath E d (t @ (if audio then ''.%(ext)s'' else ''.mp4''))
               else joinpath E d (if audio then ''%(title)s.%(ext)s'' else ''%(title)s.mp4''))),
       postprocessors =
         (if audio
          then [[(''key'', ''FFmpegExtractAudio''), (''preferredcodec'', ''mp3''),
                 (''preferredquality'', ''192'')]]
          else [[(''key'', ''FFmpegVideoConvertor''), (''preferedformat'', ''mp4'')]]),
       extract_audio = (if audio then Some True else None),
       keepvideo = (if audio then Some False else None),
       writesubtitles = False,
       writeautomaticsub = False \<rparr>"

text \<open>
  Lines 52 to 71 of \<open>yt_downloader\<close>: the value of \<open>downloaded_files\<close> after the three
  methods. Method 1 runs when \<open>requested_downloads\<close> is present and non-empty and keeps
  the entries that have a \<open>filepath\<close>; method 2 lists the directory when method 1 left
  nothing; method 3 checks the file name when method 2 left nothing and the info dict has
  a \<open>filename\<close>.
\<close>

definition method1 :: "env \<Rightarrow> info_dict \<Rightarrow> string list" where
  "method1 E info =
     (case requested_downloads info of
        None \<Rightarrow> []
      | Some ds \<Rightarrow> List.map_filter (\<lambda>dl. map_option (Path E) (filepath dl)) ds)"

definition downloaded_files :: "env \<Rightarrow> string \<Rightarrow> info_dict \<Rightarrow> io \<Rightarrow> string list \<times> io" where
  "downloaded_files E d info s =
     (let m1 = method1 E info
      in if m1 \<noteq> [] then (m1, s)
         else
           (let m2 = glob E (trace s) d;
                s2 = emit (Glob d) s
            in if m2 \<noteq> [] then (m2, s2)
               else
                 (case filename info of
                    None \<Rightarrow> ([], s2)
                  | Some f \<Rightarrow>
                      (let potential_file = joinpath E d f;
                           s3 = emit (Exists potential_file) s2
                       in if exists E (trace s2) potential_file
                          then ([potential_file], s3)
                          else ([], s3)))))"

text \<open>
  The keys of \<open>sort(key=lambda x: x.stat().st_mtime, ...)\<close>: one \<open>stat\<close> per element, in list
  order, until one raises.
\<close>

fun stat_keys :: "env \<Rightarrow> string list \<Rightarrow> io \<Rightarrow> (exn + int list) \<times> io" where
  "stat_keys E [] s = (Inr [], s)"
| "stat_keys E (p # ps) s =
     (case stat_mtime E (trace s) p of
        Inl e \<Rightarrow> (Inl e, emit (Stat p) s)
      | Inr k \<Rightarrow>
          (case stat_keys E ps (emit (Stat p) s) of
             (Inl e, s') \<Rightarrow> (Inl e, s')
           | (Inr ks, s') \<Rightarrow> (Inr (k # ks), s')))"

text \<open>
  \<open>list.sort(key=..., reverse=True)\<close> on the decorated list: CPython reverses the list,
  sorts it stably in ascending key order and reverses it again, so equal keys keep their
  order.
\<close>

definition sort_reverse :: "(int \<times> string) list \<Rightarrow> (int \<times> string) list" where
  "sort_reverse kps = rev (sort_key fst (rev kps))"

text \<open>Lines 73 to 81: no file raises, several files are sorted, the first one is returned.\<close>

definition first_file :: "env \<Rightarrow> string list \<Rightarrow> io \<Rightarrow> (exn + string) \<times> io" where
  "first_file E files s =
     (case files of
        [] \<Rightarrow> (Inl (Exception ''No files were downloaded''), s)
      | [p] \<Rightarrow> (Inr p, s)
      | p # q # ps \<Rightarrow>
          (case stat_keys E files s of
             (Inl e, s') \<Rightarrow> (Inl e, s')
           | (Inr ks, s') \<Rightarrow>
               (case sort_reverse (zip ks files) of
                  [] \<Rightarrow> (Inl (Exception ''No files were downloaded''), s')
                | kp # _ \<Rightarrow> (Inr (snd kp), s'))))"

text \<open>Lines 48 to 81, the body of the \<open>try\<close>.\<close>

definition yt_downloader_try ::
  "env \<Rightarrow> string \<Rightarrow> string \<Rightarrow> ydl_opts \<Rightarrow> io \<Rightarrow> (exn + string) \<times> io" where
  "yt_downloader_try E u d opts s =
     (let s1 = emit (ExtractInfo u opts) s
      in case extract_info E (trace s) u opts of
           Inl e \<Rightarrow> (Inl e, s1)
         | Inr None \<Rightarrow>
             (Inl (AttributeError
                ([CHR 0x27] @ ''NoneType'' @ [CHR 0x27] @ '' object has no attribute ''
                 @ [CHR 0x27] @ ''get'' @ [CHR 0x27])), s1)
         | Inr (Some info) \<Rightarrow>
             (case downloaded_files E d info s1 of
                (files, s2) \<Rightarrow> first_file E files s2))"

definition yt_downloader ::
  "env \<Rightarrow> string \<Rightarrow> string \<Rightarrow> bool \<Rightarrow> string \<Rightarrow> string option \<Rightarrow> io
     \<Rightarrow> (exn + string) \<times> io" where
  "yt_downloader E u tdir audio q ttl s =
     (if u = [] \<or> strip u = [] then (Inl (ValueError ''URL cannot be empty''), s)
      else
        (let d = Path E tdir
         in case mkdir E (trace s) d of
              Some e \<Rightarrow> (Inl e, emit (Mkdir d) s)
            | None \<Rightarrow>
                (case yt_downloader_try E u d
                        (prepare_download_options E d audio q ttl) (emit (Mkdir d) s) of
                   (Inl e, s') \<Rightarrow>
                     (Inl (Exception (''Error downloading '' @ u @ '': '' @ str_exn e)), s')
                 | (Inr p, s') \<Rightarrow> (Inr p, s'))))"

section \<open>The orchestrator\<close>

text \<open>
  \<open>download_task\<close>, the worker. \<open>task["url"]\<close> is evaluated first; on a dict without that
  key it raises \<open>KeyError\<close>, the handler evaluates \<open>task["url"]\<close> again and the second
  \<open>KeyError\<close> leaves the worker.
\<close>

definition download_task :: "env \<Rightarrow> task \<Rightarrow> io \<Rightarrow> (exn + result) \<times> io" where
  "download_task E t s =
     (case url t of
        None \<Rightarrow> (Inl (KeyError ''url''), s)
      | Some u \<Rightarrow>
          (case yt_downloader E u
                  (case target_dir t of None \<Rightarrow> ''./downloads'' | Some d \<Rightarrow> d)
                  (case only_audio t of None \<Rightarrow> True | Some b \<Rightarrow> b)
                  (case quality t of None \<Rightarrow> ''highest'' | Some q \<Rightarrow> q)
                  (title t) s of
             (Inl e, s1) \<Rightarrow> (Inr (Failure u (str_exn e)), s1)
           | (Inr p, s1) \<Rightarrow>
               (case append_log E (trace s1) (u @ [LF]) of
                  Some e \<Rightarrow> (Inr (Failure u (str_exn e)), emit (AppendLog (u @ [LF])) s1)
                | None \<Rightarrow>
                    (Inr (Success u p),
                     (emit (AppendLog (u @ [LF])) s1)\<lparr>log := log s1 @ u @ [LF]\<rparr>))))"

text \<open>
  \<open>list(executor.map(download_task, download_tasks))\<close>: the results in the order of the
  tasks. The tasks are run one after the other, the schedule of a pool of one worker; a
  worker that raises ends the run with its exception, the tasks after it taken as
  cancelled.
\<close>

fun executor_map :: "env \<Rightarrow> task list \<Rightarrow> io \<Rightarrow> (exn + result list) \<times> io" where
  "executor_map E [] s = (Inr [], s)"
| "executor_map E (t # ts) s =
     (case download_task E t s of
        (Inl e, s1) \<Rightarrow> (Inl e, s1)
      | (Inr r, s1) \<Rightarrow>
          (case executor_map E ts s1 of
             (Inl e, s2) \<Rightarrow> (Inl e, s2)
           | (Inr rs, s2) \<Rightarrow> (Inr (r # rs), s2)))"

text \<open>
  \<open>run_download_tasks\<close>. \<open>ThreadPoolExecutor(max_workers=n)\<close> raises \<open>ValueError\<close> for
  \<open>n \<le> 0\<close>, before any task is submitted.
\<close>

definition run_download_tasks ::
  "env \<Rightarrow> task list \<Rightarrow> int \<Rightarrow> io \<Rightarrow> (exn + result list) \<times> io" where
  "run_download_tasks E download_tasks max_workers s =
     (let n = min max_workers (int (length download_tasks))
      in if n \<le> 0 then (Inl (ValueError ''max_workers must be greater than 0''), s)
         else executor_map E download_tasks s)"

section \<open>The task source\<close>

text \<open>
  What \<open>json.load\<close> and \<open>yaml.safe_load\<close> return: a dict keeps the order of its keys.
  Of a number only its being one matters here.
\<close>

datatype json =
    JNull
  | JBool bool
  | JNum int
  | JStr string
  | JList "json list"
  | JDict "(string \<times> json) list"

text \<open>\<open>type(v).__name__\<close>, and a name in single quotes as the messages show it.\<close>

fun type_name :: "json \<Rightarrow> string" where
  "type_name JNull = ''NoneType''"
| "type_name (JBool b) = ''bool''"
| "type_name (JNum n) = ''int''"
| "type_name (JStr cs) = ''str''"
| "type_name (JList xs) = ''list''"
| "type_name (JDict kvs) = ''dict''"

definition quoted :: "string \<Rightarrow> string" where
  "quoted n = [CHR 0x27] @ n @ [CHR 0x27]"

text \<open>
  \<open>for url in urls\<close>: a list gives its elements, a string its characters, a dict its keys;
  anything else is not iterable.
\<close>

definition py_iter :: "json \<Rightarrow> exn + json list" where
  "py_iter v =
     (case v of
        JList xs \<Rightarrow> Inr xs
      | JStr cs \<Rightarrow> Inr (map (\<lambda>c. JStr [c]) cs)
      | JDict kvs \<Rightarrow> Inr (map (\<lambda>kv. JStr (fst kv)) kvs)
      | _ \<Rightarrow> Inl (TypeError (quoted (type_name v) @ '' object is not iterable'')))"

text \<open>
  \<open>_unified_download_tasks\<close>. \<open>download_config.get\<close> exists on a dict only; the
  dict display \<open>{**defaults, "url": url}\<close> is evaluated once per url and needs \<open>defaults\<close>
  to be a mapping; \<open>"url"\<close> replaces an entry of that key where it stands and is added
  last otherwise.
\<close>

definition unified_download_tasks :: "json \<Rightarrow> exn + (string \<times> json) list list" where
  "unified_download_tasks download_config =
     (case download_config of
        JDict cfg \<Rightarrow>
          (let defaults =
                 (case map_of cfg ''defaults'' of
                    None \<Rightarrow>
                      JDict [(''quality'', JStr ''lowest''), (''only_audio'', JBool False),
                             (''target_dir'', JStr ''./downloads'')]
                  | Some v \<Rightarrow> v);
               urls = (case map_of cfg ''urls'' of None \<Rightarrow> JList [] | Some v \<Rightarrow> v)
           in case py_iter urls of
                Inl e \<Rightarrow> Inl e
              | Inr [] \<Rightarrow> Inr []
              | Inr (x # xs) \<Rightarrow>
                  (case defaults of
                     JDict dflt \<Rightarrow> Inr (map (\<lambda>u. AList.update ''url'' u dflt) (x # xs))
                   | _ \<Rightarrow>
                       Inl (TypeError (quoted (type_name defaults) @ '' object is not a mapping''))))
      | _ \<Rightarrow>
          Inl (AttributeError
                 (quoted (type_name download_config) @ '' object has no attribute ''
                  @ quoted ''get'')))"

text \<open>
  The two loaders. \<open>load\<close> stands for the \<open>try\<close> block: opening the file and parsing it
  (\<open>json.load\<close>, respectively \<open>yaml.safe_load\<close>), \<open>Inl e\<close> when either raises. The second
  component of the result is what was printed. The call of \<open>_unified_download_tasks\<close>
  stands after the \<open>try\<close>, so what it raises leaves the loader.
\<close>

definition get_download_tasks_from_json ::
  "(string \<Rightarrow> exn + json) \<Rightarrow> string \<Rightarrow> (exn + (string \<times> json) list list) \<times> string list" where
  "get_download_tasks_from_json load config_file =
     (case load config_file of
        Inl e \<Rightarrow> (Inr [], [''Error loading JSON file: '' @ str_exn e])
      | Inr config \<Rightarrow> (unified_download_tasks config, []))"

definition get_download_tasks_from_yaml ::
  "(string \<Rightarrow> exn + json) \<Rightarrow> string \<Rightarrow> (exn + (string \<times> json) list list) \<times> string list" where
  "get_download_tasks_from_yaml load config_file =
     (case load config_file of
        Inl e \<Rightarrow> (Inr [], [''Error loading YAML file: '' @ str_exn e])
      | Inr config \<Rightarrow> (unified_download_tasks config, []))"

section \<open>Sample inputs\<close>

text \<open>
  A concrete environment for evaluating the definitions: paths are joined with a slash
  and, as in \<open>pathlib\<close>, an absolute right operand replaces the left one; \<open>mkdir\<close>
  succeeds, and the arguments fix what the provider returns, what the directory listing
  holds, whether the nominal file exists, the modification times and whether the log can
  be appended to.
\<close>

definition sample_env ::
  "(exn + info_dict option) \<Rightarrow> string list \<Rightarrow> bool \<Rightarrow> (string \<Rightarrow> exn + int) \<Rightarrow> exn option
     \<Rightarrow> env" where
  "sample_env fetched listing present mtime appended =
     \<lparr> Path = (\<lambda>p. p),
       joinpath = (\<lambda>d f. if take 1 f = ''/'' then f else d @ ''/'' @ f),
       mkdir = (\<lambda>h p. None),
       extract_info = (\<lambda>h u opts. fetched),
       glob = (\<lambda>h p. listing),
       exists = (\<lambda>h p. present),
       stat_mtime = (\<lambda>h p. mtime p),
       append_log = (\<lambda>h txt. appended) \<rparr>"

text \<open>A provider answer that reports the given produced files and no file name.\<close>

definition reports :: "string list \<Rightarrow> exn + info_dict option" where
  "reports ps =
     Inr (Some \<lparr> requested_downloads = Some (map (\<lambda>p. \<lparr>filepath = Some p\<rparr>) ps),
                 filename = None \<rparr>)"

text \<open>The task dict \<open>{"url": u}\<close>, and the state before anything has happened.\<close>

definition url_task :: "string \<Rightarrow> task" where
  "url_task u =
     \<lparr> url = Some u, target_dir = None, only_audio = None, quality = None, title = None \<rparr>"

definition io0 :: io where
  "io0 = \<lparr> trace = [], log = [] \<rparr>"

text \<open>The provider reports the single produced file \<open>/d/x.mp3\<close> and the log is writable.\<close>

definition env_reported :: env where
  "env_reported = sample_env (reports [''/d/x.mp3'']) [] False (\<lambda>p. Inr 0) None"

text \<open>The same, with a log that cannot be written.\<close>

definition env_log_full :: env where
  "env_log_full =
     sample_env (reports [''/d/x.mp3'']) [] False (\<lambda>p. Inr 0)
       (Some (OSError ''[Errno 28] No space left on device''))"

text \<open>A provider answer that reports no produced file, with or without a file name.\<close>

definition no_report :: "string option \<Rightarrow> exn + info_dict option" where
  "no_report f = Inr (Some \<lparr> requested_downloads = None, filename = f \<rparr>)"

text \<open>
  Nothing is reported and the directory holds three files, the second one modified last
  and the third one first; nothing is reported, the listing of the target directory is
  empty and the nominal file, an absolute path outside that directory, exists; nothing is
  reported or found at all; the provider raises.
\<close>

definition env_listing :: env where
  "env_listing =
     sample_env (no_report None) [''dl/mid.mp4'', ''dl/new.mp4'', ''dl/old.mp4''] False
       (\<lambda>p. Inr (if p = ''dl/new.mp4'' then 20 else if p = ''dl/mid.mp4'' then 15 else 10))
       None"

definition env_nominal :: env where
  "env_nominal = sample_env (no_report (Some ''/media/x.mp4'')) [] True (\<lambda>p. Inr 0) None"

definition env_nothing :: env where
  "env_nothing = sample_env (no_report None) [] False (\<lambda>p. Inr 0) None"

definition env_fetch_fails :: env where
  "env_fetch_fails =
     sample_env (Inl (Exception ''ERROR: Video unavailable'')) [] False (\<lambda>p. Inr 0) None"

text \<open>
  Four config sources as the \<open>try\<close> block of a loader sees them: a file that is missing, an
  empty YAML file (which \<open>yaml.safe_load\<close> parses to \<open>None\<close>), a JSON file holding
  \<open>[]\<close>, and a JSON file holding \<open>{"urls": 5}\<close>.
\<close>

definition load_missing :: "string \<Rightarrow> exn + json" where
  "load_missing config_file = Inl (OSError ''[Errno 2] No such file or directory'')"

definition load_empty_yaml :: "string \<Rightarrow> exn + json" where
  "load_empty_yaml config_file = Inr JNull"

definition load_list :: "string \<Rightarrow> exn + json" where
  "load_list config_file = Inr (JList [])"

definition load_urls_number :: "string \<Rightarrow> exn + json" where
  "load_urls_number config_file = Inr (JDict [(''urls'', JNum 5)])"

section \<open>Auxiliary facts\<close>

lemma strip_Nil_iff: "strip s = [] \<longleftrightarrow> list_all py_isspace s"
proof (cases "dropWhile py_isspace s")
  case Nil
  have "strip s = []" unfolding strip_def Nil by simp
  moreover from Nil have "list_all py_isspace s"
    unfolding list_all_iff dropWhile_eq_Nil_conv by blast
  ultimately show ?thesis by simp
next
  case (Cons x xs)
  have "hd (dropWhile py_isspace s) = x" by (simp add: Cons)
  moreover have "dropWhile py_isspace s \<noteq> []" by (simp add: Cons)
  ultimately have nx: "\<not> py_isspace x"
    using hd_dropWhile[of py_isspace s] by simp
  have "x \<in> set (rev (dropWhile py_isspace s))"
    by (simp add: Cons)
  with nx have a: "dropWhile py_isspace (rev (dropWhile py_isspace s)) \<noteq> []"
    unfolding dropWhile_eq_Nil_conv by blast
  have "dropWhile py_isspace s \<noteq> []" by (simp add: Cons)
  then have b: "\<not> list_all py_isspace s"
    unfolding dropWhile_eq_Nil_conv list_all_iff by blast
  from a b show ?thesis by (simp add: strip_def)
qed

lemma emit_log: "log (emit ev s) = log s"
  by (simp add: emit_def)

lemma emit_trace: "trace (emit ev s) = trace s @ [ev]"
  by (simp add: emit_def)

lemma stat_keys_log: "log (snd (stat_keys E ps s)) = log s"
proof (induction ps arbitrary: s)
  case Nil
  show ?case by simp
next
  case (Cons p ps)
  show ?case
  proof (cases "stat_mtime E (trace s) p")
    case (Inl e)
    then show ?thesis by (simp add: emit_log)
  next
    case (Inr k)
    obtain r s' where r: "stat_keys E ps (emit (Stat p) s) = (r, s')"
      by (cases "stat_keys E ps (emit (Stat p) s)")
    from Cons.IH[of "emit (Stat p) s"] r have "log s' = log s"
      by (simp add: emit_log)
    with Inr r show ?thesis by (cases r) simp_all
  qed
qed


lemma downloaded_files_log: "log (snd (downloaded_files E d info s)) = log s"
  by (simp add: downloaded_files_def emit_log Let_def split: option.splits)

lemma first_file_log: "log (snd (first_file E files s)) = log s"
proof (cases files)
  case Nil
  then show ?thesis by (simp add: first_file_def)
next
  case (Cons p ps)
  show ?thesis
  proof (cases ps)
    case Nil
    with Cons show ?thesis by (simp add: first_file_def)
  next
    case (Cons q qs)
    obtain r s' where r: "stat_keys E files s = (r, s')"
      by (cases "stat_keys E files s")
    with stat_keys_log[of E files s] have "log s' = log s" by simp
    with r Cons \<open>files = p # ps\<close> show ?thesis
      by (cases r) (simp_all add: first_file_def split: list.splits)
  qed
qed

lemma yt_downloader_try_log: "log (snd (yt_downloader_try E u d opts s)) = log s"
proof (cases "extract_info E (trace s) u opts")
  case (Inl e)
  then show ?thesis by (simp add: yt_downloader_try_def emit_log)
next
  case (Inr r)
  show ?thesis
  proof (cases r)
    case None
    with Inr show ?thesis by (simp add: yt_downloader_try_def emit_log)
  next
    case (Some info)
    obtain files s2 where f: "downloaded_files E d info (emit (ExtractInfo u opts) s) = (files, s2)"
      by (cases "downloaded_files E d info (emit (ExtractInfo u opts) s)")
    with downloaded_files_log[of E d info "emit (ExtractInfo u opts) s"]
    have "log s2 = log s" by (simp add: emit_log)
    with first_file_log[of E files s2] Inr Some f show ?thesis
      by (simp add: yt_downloader_try_def)
  qed
qed

lemma yt_downloader_log: "log (snd (yt_downloader E u tdir audio q ttl s)) = log s"
proof (cases "u = [] \<or> strip u = []")
  case True
  then show ?thesis by (auto simp add: yt_downloader_def)
next
  case False
  show ?thesis
  proof (cases "mkdir E (trace s) (Path E tdir)")
    case (Some e)
    with False show ?thesis by (simp add: yt_downloader_def emit_log)
  next
    case None
    obtain r s' where r: "yt_downloader_try E u (Path E tdir)
        (prepare_download_options E (Path E tdir) audio q ttl) (emit (Mkdir (Path E tdir)) s) = (r, s')"
      by (cases "yt_downloader_try E u (Path E tdir)
        (prepare_download_options E (Path E tdir) audio q ttl) (emit (Mkdir (Path E tdir)) s)")
    with yt_downloader_try_log[of E u "Path E tdir"
        "prepare_download_options E (Path E tdir) audio q ttl" "emit (Mkdir (Path E tdir)) s"]
    have "log s' = log s" by (simp add: emit_log)
    with False None r show ?thesis
      by (cases r) (simp_all add: yt_downloader_def)
  qed
qed

lemma download_task_blank:
  assumes "url t = Some u" "list_all py_isspace u"
  shows "download_task E t s = (Inr (Failure u ''URL cannot be empty''), s)"
proof -
  from assms(2) have "u = [] \<or> strip u = []" by (simp add: strip_Nil_iff)
  then have "yt_downloader E u tdir audio q ttl s = (Inl (ValueError ''URL cannot be empty''), s)"
    for tdir audio q ttl
    by (simp add: yt_downloader_def)
  with assms(1) show ?thesis by (simp add: download_task_def)
qed

lemma download_task_returns:
  assumes "url t = Some u"
  shows "\<exists>r s'. download_task E t s = (Inr r, s') \<and> result_url r = u"
  using assms
  by (auto simp: download_task_def split: prod.splits sum.splits option.splits)

lemma download_task_Inr_url:
  "download_task E t s = (Inr r, s') \<Longrightarrow> url t = Some (result_url r)"
  by (auto simp: download_task_def split: prod.splits sum.splits option.splits)


lemma executor_map_returns:
  "list_all (\<lambda>t. url t \<noteq> None) ts \<Longrightarrow>
     \<exists>rs s'. executor_map E ts s = (Inr rs, s') \<and> map (\<lambda>r. Some (result_url r)) rs = map url ts"
proof (induction ts arbitrary: s)
  case Nil
  show ?case by simp
next
  case (Cons t ts)
  from Cons.prems obtain u where u: "url t = Some u" by auto
  from download_task_returns[OF u, of E s] obtain r s1
    where r: "download_task E t s = (Inr r, s1)" "result_url r = u" by blast
  from Cons.prems have "list_all (\<lambda>t. url t \<noteq> None) ts" by simp
  from Cons.IH[OF this, of s1] obtain rs s2
    where rs: "executor_map E ts s1 = (Inr rs, s2)" "map (\<lambda>r. Some (result_url r)) rs = map url ts"
    by blast
  from r rs u show ?case by simp
qed

lemma executor_map_Inr_urls:
  "executor_map E ts s = (Inr rs, s') \<Longrightarrow> map (\<lambda>r. Some (result_url r)) rs = map url ts"
proof (induction ts arbitrary: s rs)
  case Nil
  then show ?case by simp
next
  case (Cons t ts)
  from Cons.prems obtain r s1 rs1 where
    r: "download_task E t s = (Inr r, s1)" and
    rs1: "executor_map E ts s1 = (Inr rs1, s')" and eq: "rs = r # rs1"
    by (auto split: prod.splits sum.splits)
  from Cons.IH[OF rs1] download_task_Inr_url[OF r] eq show ?case by simp
qed

lemma yt_downloader_unfold:
  assumes "\<not> list_all py_isspace u" and "mkdir E (trace s) (Path E tdir) = None"
  shows "yt_downloader E u tdir audio q ttl s =
     (case yt_downloader_try E u (Path E tdir)
             (prepare_download_options E (Path E tdir) audio q ttl)
             (emit (Mkdir (Path E tdir)) s) of
        (Inl e, s') \<Rightarrow>
          (Inl (Exception (''Error downloading '' @ u @ '': '' @ str_exn e)), s')
      | (Inr p, s') \<Rightarrow> (Inr p, s'))"
proof -
  from assms(1) have "\<not> (u = [] \<or> strip u = [])"
    by (auto simp: strip_Nil_iff)
  with assms(2) show ?thesis
    by (simp add: yt_downloader_def Let_def)
qed






lemmas model_defs =
  run_download_tasks_def download_task_def yt_downloader_def yt_downloader_try_def
  downloaded_files_def method1_def first_file_def sort_reverse_def prepare_download_options_def
  sample_env_def reports_def url_task_def io0_def strip_def py_isspace_def emit_def LF_def
  List.map_filter_def Let_def env_reported_def env_log_full_def no_report_def env_listing_def
  env_nominal_def env_nothing_def env_fetch_fails_def

section \<open>The orchestrator: claims\<close>

text \<open>
  Claim C1. \<open>run\<close> is claimed to return one result per task for every task list, the
  empty one included, without the effective-concurrency computation failing. The code
  computes \<open>min(max_workers, len(download_tasks))\<close>, which is 0 for the empty list, and
  hands it to \<open>ThreadPoolExecutor\<close>, which raises \<open>ValueError\<close> for a worker count that is
  not positive. So on the empty list, which \<open>get_download_tasks_from_json\<close> returns on a
  load failure and \<open>main\<close> passes on unchecked, \<open>run_download_tasks\<close> raises instead of
  returning the empty result list, whatever \<open>max_workers\<close> is.
\<close>

theorem run_download_tasks_empty:
  "run_download_tasks E [] max_workers s =
     (Inl (ValueError ''max_workers must be greater than 0''), s)"
  by (simp add: run_download_tasks_def)



text \<open>
  Claim C3. For a worker on a task with a url \<open>u\<close>:
  \<^item> when the fetch returns a path and the append to the log does not raise, the result is
    a Success and the log has grown by exactly \<open>u\<close> followed by one line feed (one line,
    when \<open>u\<close> holds no line feed); in particular so when the url is valid, the directory
    is created, the provider reports one produced file and the log can be written;
  \<^item> when the fetch raises, the result is a Failure and the log is the one from before; in
    particular so for a blank url (validation), for a directory that cannot be created
    (I/O) and for a provider that raises (fetch);
  \<^item> when the fetch returns a path and the append raises, the result is a Failure and the
    log is the one from before.
  These cases are all there are, so a Success always comes with its line and a Failure with
  none.
\<close>

theorem progress_log_append:
  fixes E :: env and t :: task and s :: io and u :: string
  defines "tdir \<equiv> (case target_dir t of None \<Rightarrow> ''./downloads'' | Some d \<Rightarrow> d)"
  defines "audio \<equiv> (case only_audio t of None \<Rightarrow> True | Some b \<Rightarrow> b)"
  defines "q \<equiv> (case quality t of None \<Rightarrow> ''highest'' | Some q \<Rightarrow> q)"
  defines "d \<equiv> Path E tdir"
  defines "opts \<equiv> prepare_download_options E d audio q (title t)"
  defines "fetch \<equiv> yt_downloader E u tdir audio q (title t) s"
  assumes u: "url t = Some u"
  shows
    "(\<exists>r s'. download_task E t s = (Inr r, s') \<and> result_url r = u \<and>
         log s' = (case r of Success _ _ \<Rightarrow> log s @ u @ [LF] | Failure _ _ \<Rightarrow> log s))
   \<and> (fetch = (Inr p, s1) \<and> append_log E (trace s1) (u @ [LF]) = None \<longrightarrow>
        download_task E t s =
          (Inr (Success u p), (emit (AppendLog (u @ [LF])) s1)\<lparr>log := log s @ u @ [LF]\<rparr>))
   \<and> (fetch = (Inr p, s1) \<and> append_log E (trace s1) (u @ [LF]) = Some e \<longrightarrow>
        download_task E t s = (Inr (Failure u (str_exn e)), emit (AppendLog (u @ [LF])) s1) \<and>
        log (emit (AppendLog (u @ [LF])) s1) = log s)
   \<and> (fetch = (Inl e, s1) \<longrightarrow>
        download_task E t s = (Inr (Failure u (str_exn e)), s1) \<and> log s1 = log s)
   \<and> (list_all py_isspace u \<longrightarrow>
        download_task E t s = (Inr (Failure u ''URL cannot be empty''), s))
   \<and> (\<not> list_all py_isspace u \<and> mkdir E (trace s) d = Some e \<longrightarrow>
        download_task E t s = (Inr (Failure u (str_exn e)), s\<lparr>trace := trace s @ [Mkdir d]\<rparr>))
   \<and> (\<not> list_all py_isspace u \<and> mkdir E (trace s) d = None \<and>
        extract_info E (trace s @ [Mkdir d]) u opts = Inl e \<longrightarrow>
        download_task E t s =
          (Inr (Failure u (''Error downloading '' @ u @ '': '' @ str_exn e)),
           s\<lparr>trace := trace s @ [Mkdir d, ExtractInfo u opts]\<rparr>))
   \<and> (\<not> list_all py_isspace u \<and> mkdir E (trace s) d = None \<and>
        extract_info E (trace s @ [Mkdir d]) u opts = Inr (Some info) \<and>
        method1 E info = [p] \<and>
        append_log E (trace s @ [Mkdir d, ExtractInfo u opts]) (u @ [LF]) = None \<longrightarrow>
        download_task E t s =
          (Inr (Success u p),
           s\<lparr>trace := trace s @ [Mkdir d, ExtractInfo u opts, AppendLog (u @ [LF])],
             log := log s @ u @ [LF]\<rparr>))
   \<and> (LF \<notin> set u \<longrightarrow> count_list (u @ [LF]) LF = 1)"
proof -
  have dt: "download_task E t s =
      (case fetch of
         (Inl e, s1) \<Rightarrow> (Inr (Failure u (str_exn e)), s1)
       | (Inr p, s1) \<Rightarrow>
           (case append_log E (trace s1) (u @ [LF]) of
              Some e \<Rightarrow> (Inr (Failure u (str_exn e)), emit (AppendLog (u @ [LF])) s1)
            | None \<Rightarrow>
                (Inr (Success u p),
                 (emit (AppendLog (u @ [LF])) s1)\<lparr>log := log s1 @ u @ [LF]\<rparr>)))"
    using u by (simp add: download_task_def fetch_def tdir_def audio_def q_def)
  have keep: "fetch = (r, s1) \<Longrightarrow> log s1 = log s" for r s1
    using yt_downloader_log[of E u tdir audio q "title t" s] by (simp add: fetch_def)
  have c1: "\<exists>r s'. download_task E t s = (Inr r, s') \<and> result_url r = u \<and>
         log s' = (case r of Success _ _ \<Rightarrow> log s @ u @ [LF] | Failure _ _ \<Rightarrow> log s)"
  proof -
    obtain r s1 where f: "fetch = (r, s1)" by (cases fetch)
    show ?thesis
    proof (cases r)
      case (Inl e)
      with f keep[OF f] show ?thesis by (simp add: dt)
    next
      case (Inr p)
      with f keep[OF f] show ?thesis
        by (cases "append_log E (trace s1) (u @ [LF])") (simp_all add: dt emit_log)
    qed
  qed
  have c2: "fetch = (Inr p, s1) \<and> append_log E (trace s1) (u @ [LF]) = None \<longrightarrow>
        download_task E t s =
          (Inr (Success u p), (emit (AppendLog (u @ [LF])) s1)\<lparr>log := log s @ u @ [LF]\<rparr>)"
    using keep[of "Inr p" s1] by (auto simp: dt)
  have c3: "fetch = (Inr p, s1) \<and> append_log E (trace s1) (u @ [LF]) = Some e \<longrightarrow>
        download_task E t s = (Inr (Failure u (str_exn e)), emit (AppendLog (u @ [LF])) s1) \<and>
        log (emit (AppendLog (u @ [LF])) s1) = log s"
    using keep[of "Inr p" s1] by (auto simp: dt emit_log)
  have c4: "fetch = (Inl e, s1) \<longrightarrow>
        download_task E t s = (Inr (Failure u (str_exn e)), s1) \<and> log s1 = log s"
    using keep[of "Inl e" s1] by (auto simp: dt)
  have c5: "list_all py_isspace u \<longrightarrow>
        download_task E t s = (Inr (Failure u ''URL cannot be empty''), s)"
    using download_task_blank[OF u, of E s] by blast
  have c6: "\<not> list_all py_isspace u \<and> mkdir E (trace s) d = Some e \<longrightarrow>
        download_task E t s = (Inr (Failure u (str_exn e)), s\<lparr>trace := trace s @ [Mkdir d]\<rparr>)"
  proof
    assume h: "\<not> list_all py_isspace u \<and> mkdir E (trace s) d = Some e"
    then have "\<not> (u = [] \<or> strip u = [])" by (auto simp: strip_Nil_iff)
    with h have "fetch = (Inl e, emit (Mkdir d) s)"
      by (simp add: fetch_def yt_downloader_def d_def Let_def)
    then show "download_task E t s =
        (Inr (Failure u (str_exn e)), s\<lparr>trace := trace s @ [Mkdir d]\<rparr>)"
      by (simp add: dt emit_def)
  qed
  have run: "\<not> list_all py_isspace u \<and> mkdir E (trace s) d = None \<Longrightarrow>
      fetch = (case yt_downloader_try E u d opts (emit (Mkdir d) s) of
         (Inl e, s') \<Rightarrow> (Inl (Exception (''Error downloading '' @ u @ '': '' @ str_exn e)), s')
       | (Inr p, s') \<Rightarrow> (Inr p, s'))"
    using yt_downloader_unfold[of u E s tdir audio q "title t"]
    by (simp add: fetch_def d_def opts_def)
  have c7: "\<not> list_all py_isspace u \<and> mkdir E (trace s) d = None \<and>
        extract_info E (trace s @ [Mkdir d]) u opts = Inl e \<longrightarrow>
        download_task E t s =
          (Inr (Failure u (''Error downloading '' @ u @ '': '' @ str_exn e)),
           s\<lparr>trace := trace s @ [Mkdir d, ExtractInfo u opts]\<rparr>)"
  proof
    assume h: "\<not> list_all py_isspace u \<and> mkdir E (trace s) d = None \<and>
        extract_info E (trace s @ [Mkdir d]) u opts = Inl e"
    then have "yt_downloader_try E u d opts (emit (Mkdir d) s) =
        (Inl e, emit (ExtractInfo u opts) (emit (Mkdir d) s))"
      by (simp add: yt_downloader_try_def emit_trace)
    with h run have "fetch =
        (Inl (Exception (''Error downloading '' @ u @ '': '' @ str_exn e)),
         emit (ExtractInfo u opts) (emit (Mkdir d) s))" by simp
    then show "download_task E t s =
          (Inr (Failure u (''Error downloading '' @ u @ '': '' @ str_exn e)),
           s\<lparr>trace := trace s @ [Mkdir d, ExtractInfo u opts]\<rparr>)"
      by (simp add: dt emit_def)
  qed
  have c8: "\<not> list_all py_isspace u \<and> mkdir E (trace s) d = None \<and>
        extract_info E (trace s @ [Mkdir d]) u opts = Inr (Some info) \<and>
        method1 E info = [p] \<and>
        append_log E (trace s @ [Mkdir d, ExtractInfo u opts]) (u @ [LF]) = None \<longrightarrow>
        download_task E t s =
          (Inr (Success u p),
           s\<lparr>trace := trace s @ [Mkdir d, ExtractInfo u opts, AppendLog (u @ [LF])],
             log := log s @ u @ [LF]\<rparr>)"
  proof
    assume h: "\<not> list_all py_isspace u \<and> mkdir E (trace s) d = None \<and>
        extract_info E (trace s @ [Mkdir d]) u opts = Inr (Some info) \<and>
        method1 E info = [p] \<and>
        append_log E (trace s @ [Mkdir d, ExtractInfo u opts]) (u @ [LF]) = None"
    then have "yt_downloader_try E u d opts (emit (Mkdir d) s) =
        (Inr p, emit (ExtractInfo u opts) (emit (Mkdir d) s))"
      by (simp add: yt_downloader_try_def emit_trace downloaded_files_def first_file_def Let_def)
    with h run have f: "fetch = (Inr p, emit (ExtractInfo u opts) (emit (Mkdir d) s))" by simp
    from h have "append_log E (trace (emit (ExtractInfo u opts) (emit (Mkdir d) s))) (u @ [LF]) = None"
      by (simp add: emit_def)
    with f show "download_task E t s =
          (Inr (Success u p),
           s\<lparr>trace := trace s @ [Mkdir d, ExtractInfo u opts, AppendLog (u @ [LF])],
             log := log s @ u @ [LF]\<rparr>)"
      by (simp add: dt emit_def)
  qed
  have c9: "LF \<notin> set u \<longrightarrow> count_list (u @ [LF]) LF = 1"
    by (simp add: count_list_0_iff)
  from c1 c2 c3 c4 c5 c6 c7 c8 c9 show ?thesis by blast
qed

theorem progress_log_append_witness:
  "url (url_task ''https://a'') = Some ''https://a'' \<and>
   download_task env_reported (url_task ''https://a'') io0 =
     (Inr (Success ''https://a'' ''/d/x.mp3''),
      \<lparr> trace = [Mkdir ''./downloads'',
                  ExtractInfo ''https://a''
                    (prepare_download_options env_reported ''./downloads'' True ''highest'' None),
                  AppendLog (''https://a'' @ [LF])],
        log = ''https://a'' @ [LF] \<rparr>) \<and>
   download_task env_fetch_fails (url_task ''https://a'') io0 =
     (Inr (Failure ''https://a'' ''Error downloading https://a: ERROR: Video unavailable''),
      \<lparr> trace = [Mkdir ''./downloads'',
                  ExtractInfo ''https://a''
                    (prepare_download_options env_fetch_fails ''./downloads'' True ''highest'' None)],
        log = [] \<rparr>) \<and>
   download_task env_reported (url_task ''  '') io0 =
     (Inr (Failure ''  '' ''URL cannot be empty''), io0)"
proof -
  have h: "url (url_task ''https://a'') = Some ''https://a''"
    by (simp add: url_task_def)
  have a: "download_task env_reported (url_task ''https://a'') io0 =
     (Inr (Success ''https://a'' ''/d/x.mp3''),
      \<lparr> trace = [Mkdir ''./downloads'',
                  ExtractInfo ''https://a''
                    (prepare_download_options env_reported ''./downloads'' True ''highest'' None),
                  AppendLog (''https://a'' @ [LF])],
        log = ''https://a'' @ [LF] \<rparr>)"
    using progress_log_append[where E = env_reported and t = "url_task ''https://a''"
        and u = "''https://a''" and s = io0 and p = "''/d/x.mp3''"
        and info = "\<lparr> requested_downloads = Some [\<lparr>filepath = Some ''/d/x.mp3''\<rparr>],
                        filename = None \<rparr>"]
    by (simp add: model_defs)
  have b: "download_task env_fetch_fails (url_task ''https://a'') io0 =
     (Inr (Failure ''https://a'' ''Error downloading https://a: ERROR: Video unavailable''),
      \<lparr> trace = [Mkdir ''./downloads'',
                  ExtractInfo ''https://a''
                    (prepare_download_options env_fetch_fails ''./downloads'' True ''highest'' None)],
        log = [] \<rparr>)"
    using progress_log_append[where E = env_fetch_fails and t = "url_task ''https://a''"
        and u = "''https://a''" and s = io0 and e = "Exception ''ERROR: Video unavailable''"]
    by (simp add: model_defs)
  have c: "download_task env_reported (url_task ''  '') io0 =
     (Inr (Failure ''  '' ''URL cannot be empty''), io0)"
    using progress_log_append[where E = env_reported and t = "url_task ''  ''"
        and u = "''  ''" and s = io0]
    by (simp add: model_defs)
  from h a b c show ?thesis by blast
qed

text \<open>
  Claim C9. Whenever \<open>run_download_tasks\<close> returns a list, it has one result per task and
  the result at each position carries the url of the task at that position; and it does
  return a list when the worker count is positive, the task list is not empty and every
  task has a url.
\<close>

theorem results_in_input_order:
  "(\<forall>rs s'. run_download_tasks E ts k s = (Inr rs, s') \<longrightarrow>
       length rs = length ts \<and> (\<forall>i<length ts. url (ts ! i) = Some (result_url (rs ! i))))
   \<and> (0 < k \<and> ts \<noteq> [] \<and> list_all (\<lambda>t. url t \<noteq> None) ts \<longrightarrow>
       (\<exists>rs s'. run_download_tasks E ts k s = (Inr rs, s')))"
proof (intro conjI allI impI)
  fix rs s'
  assume run: "run_download_tasks E ts k s = (Inr rs, s')"
  then have "executor_map E ts s = (Inr rs, s')"
    by (simp add: run_download_tasks_def Let_def split: if_splits)
  from executor_map_Inr_urls[OF this]
  have m: "map (\<lambda>r. Some (result_url r)) rs = map url ts" .
  then show len: "length rs = length ts"
    using map_eq_imp_length_eq by fastforce
  fix i
  assume i: "i < length ts"
  from m have "map (\<lambda>r. Some (result_url r)) rs ! i = map url ts ! i" by simp
  with i len show "url (ts ! i) = Some (result_url (rs ! i))" by simp
next
  assume h: "0 < k \<and> ts \<noteq> [] \<and> list_all (\<lambda>t. url t \<noteq> None) ts"
  then have "\<not> min k (int (length ts)) \<le> 0" by (cases ts) auto
  moreover from h executor_map_returns[of ts E s]
  obtain rs s' where "executor_map E ts s = (Inr rs, s')" by blast
  ultimately show "\<exists>rs s'. run_download_tasks E ts k s = (Inr rs, s')"
    by (simp add: run_download_tasks_def Let_def)
qed

theorem results_in_input_order_witness:
  "(0::int) < 10 \<and> [url_task ''https://a'', url_task ''https://b''] \<noteq> [] \<and>
   list_all (\<lambda>t. url t \<noteq> None) [url_task ''https://a'', url_task ''https://b''] \<and>
   (\<exists>rs s'. run_download_tasks env_reported [url_task ''https://a'', url_task ''https://b''] 10 io0
        = (Inr rs, s') \<and> map result_url rs = [''https://a'', ''https://b''])"
  using results_in_input_order[of env_reported "[url_task ''https://a'', url_task ''https://b'']" 10 io0]
  by (simp add: model_defs)

text \<open>
  Claim C10. When the fetch of a task has succeeded, so that \<open>yt_downloader\<close> returned a
  path, and appending to the log then raises, the worker returns a Failure carrying the url
  and the text of that exception, although the file was downloaded; the log is the one
  from before the task, without the url.
\<close>

theorem log_write_failure_is_a_failure:
  assumes "url t = Some u"
    and "yt_downloader E u
           (case target_dir t of None \<Rightarrow> ''./downloads'' | Some d \<Rightarrow> d)
           (case only_audio t of None \<Rightarrow> True | Some b \<Rightarrow> b)
           (case quality t of None \<Rightarrow> ''highest'' | Some q \<Rightarrow> q)
           (title t) s = (Inr p, s1)"
    and "append_log E (trace s1) (u @ [LF]) = Some e"
  shows "download_task E t s = (Inr (Failure u (str_exn e)), emit (AppendLog (u @ [LF])) s1)
         \<and> log (emit (AppendLog (u @ [LF])) s1) = log s"
proof -
  from assms have "download_task E t s =
      (Inr (Failure u (str_exn e)), emit (AppendLog (u @ [LF])) s1)"
    by (simp add: download_task_def)
  moreover from yt_downloader_log[of E u _ _ _ "title t" s] assms(2) have "log s1 = log s"
    by (metis snd_conv)
  ultimately show ?thesis by (simp add: emit_log)
qed

theorem log_write_failure_is_a_failure_witness:
  "url (url_task ''https://a'') = Some ''https://a'' \<and>
   yt_downloader env_log_full ''https://a'' ''./downloads'' True ''highest'' None io0 =
     (Inr ''/d/x.mp3'',
      \<lparr> trace = [Mkdir ''./downloads'',
                  ExtractInfo ''https://a''
                    (prepare_download_options env_log_full ''./downloads'' True ''highest'' None)],
        log = [] \<rparr>) \<and>
   download_task env_log_full (url_task ''https://a'') io0 =
     (Inr (Failure ''https://a'' ''[Errno 28] No space left on device''),
      \<lparr> trace = [Mkdir ''./downloads'',
                  ExtractInfo ''https://a''
                    (prepare_download_options env_log_full ''./downloads'' True ''highest'' None),
                  AppendLog (''https://a'' @ [LF])],
        log = [] \<rparr>)"
  using log_write_failure_is_a_failure[of "url_task ''https://a''" "''https://a''" env_log_full io0
      "''/d/x.mp3''"
      "\<lparr> trace = [Mkdir ''./downloads'',
                  ExtractInfo ''https://a''
                    (prepare_download_options env_log_full ''./downloads'' True ''highest'' None)],
        log = [] \<rparr>"
      "OSError ''[Errno 28] No space left on device''"]
  by (simp add: model_defs)

text \<open>
  Claim C6. A task dict without the key \<open>only_audio\<close> is claimed to be fetched with
  \<open>only_audio = False\<close>, the default of the task model, of the signature of
  \<open>yt_downloader\<close> and of \<open>_unified_download_tasks\<close>. The worker reads
  \<open>task.get("only_audio", True)\<close>: a task without the key behaves as one that stores
  \<open>True\<close>, and on the task \<open>{"url": "https://a"}\<close> the provider is called with the audio
  options, which differs from what the same task with \<open>only_audio = False\<close> does.
\<close>

theorem only_audio_defaults_to_true:
  "download_task E (t\<lparr>only_audio := None\<rparr>) s = download_task E (t\<lparr>only_audio := Some True\<rparr>) s
   \<and> download_task env_reported (url_task ''https://a'') io0 =
       download_task env_reported ((url_task ''https://a'')\<lparr>only_audio := Some True\<rparr>) io0
   \<and> download_task env_reported (url_task ''https://a'') io0 \<noteq>
       download_task env_reported ((url_task ''https://a'')\<lparr>only_audio := Some False\<rparr>) io0
   \<and> trace (snd (download_task env_reported (url_task ''https://a'') io0)) =
       [Mkdir ''./downloads'',
        ExtractInfo ''https://a''
          (prepare_download_options env_reported ''./downloads'' True ''highest'' None),
        AppendLog (''https://a'' @ [LF])]"
proof (intro conjI)
  show "download_task E (t\<lparr>only_audio := None\<rparr>) s = download_task E (t\<lparr>only_audio := Some True\<rparr>) s"
    by (cases "url t") (simp_all add: download_task_def)
  show "download_task env_reported (url_task ''https://a'') io0 =
       download_task env_reported ((url_task ''https://a'')\<lparr>only_audio := Some True\<rparr>) io0"
    by (simp add: download_task_def url_task_def)
  show "download_task env_reported (url_task ''https://a'') io0 \<noteq>
       download_task env_reported ((url_task ''https://a'')\<lparr>only_audio := Some False\<rparr>) io0"
    by (simp add: model_defs)
  show "trace (snd (download_task env_reported (url_task ''https://a'') io0)) =
       [Mkdir ''./downloads'',
        ExtractInfo ''https://a''
          (prepare_download_options env_reported ''./downloads'' True ''highest'' None),
        AppendLog (''https://a'' @ [LF])]"
    by (simp add: model_defs)
qed

section \<open>The task source: claims\<close>

text \<open>
  Claim C7. The claim is that every malformed or unreadable config source gives the empty
  task list with no exception leaving the loader. That holds when the source cannot be
  opened or parsed, that is when \<open>open\<close> or the parser raises inside the \<open>try\<close> block:
  both loaders then print the error and return the empty list. It does not hold for a
  source that parses and has the wrong shape: \<open>_unified_download_tasks\<close> is called after
  the \<open>try\<close>, and what it raises leaves the loader.
\<close>

theorem load_failure_gives_no_tasks:
  assumes "load config_file = Inl e"
  shows "get_download_tasks_from_json load config_file =
           (Inr [], [''Error loading JSON file: '' @ str_exn e])
       \<and> get_download_tasks_from_yaml load config_file =
           (Inr [], [''Error loading YAML file: '' @ str_exn e])"
  using assms
  by (simp add: get_download_tasks_from_json_def get_download_tasks_from_yaml_def)

theorem load_failure_gives_no_tasks_witness:
  "load_missing ''configuration.json'' = Inl (OSError ''[Errno 2] No such file or directory'') \<and>
   get_download_tasks_from_json load_missing ''configuration.json'' =
     (Inr [], [''Error loading JSON file: [Errno 2] No such file or directory'']) \<and>
   get_download_tasks_from_yaml load_missing ''configuration.json'' =
     (Inr [], [''Error loading YAML file: [Errno 2] No such file or directory''])"
  using load_failure_gives_no_tasks[of load_missing "''configuration.json''"
      "OSError ''[Errno 2] No such file or directory''"]
  by (simp add: load_missing_def)

text \<open>
  The claim as stated fails on an empty YAML file, on a JSON file holding a list and on a
  config whose \<open>urls\<close> is a number: an \<open>AttributeError\<close>, respectively a \<open>TypeError\<close>,
  leaves the loader and no task list is returned.
\<close>

theorem parsed_non_dict_escapes_counterexample:
  "get_download_tasks_from_yaml load_empty_yaml ''configuration.yaml'' =
     (Inl (AttributeError
             ([CHR 0x27] @ ''NoneType'' @ [CHR 0x27] @ '' object has no attribute ''
              @ [CHR 0x27] @ ''get'' @ [CHR 0x27])), [])
   \<and> fst (get_download_tasks_from_yaml load_empty_yaml ''configuration.yaml'') \<noteq> Inr []
   \<and> get_download_tasks_from_json load_list ''configuration.json'' =
     (Inl (AttributeError
             ([CHR 0x27] @ ''list'' @ [CHR 0x27] @ '' object has no attribute ''
              @ [CHR 0x27] @ ''get'' @ [CHR 0x27])), [])
   \<and> get_download_tasks_from_json load_urls_number ''configuration.json'' =
     (Inl (TypeError ([CHR 0x27] @ ''int'' @ [CHR 0x27] @ '' object is not iterable'')), [])"
  by (simp add: get_download_tasks_from_json_def get_download_tasks_from_yaml_def
      unified_download_tasks_def py_iter_def quoted_def load_empty_yaml_def load_list_def
      load_urls_number_def)

text \<open>The defaults that \<open>_unified_download_tasks\<close> uses when the config has none.\<close>

lemma unified_download_tasks_defaults:
  "unified_download_tasks (JDict [(''urls'', JList [JStr ''a'', JStr ''b''])]) =
     Inr [[(''quality'', JStr ''lowest''), (''only_audio'', JBool False),
           (''target_dir'', JStr ''./downloads''), (''url'', JStr ''a'')],
          [(''quality'', JStr ''lowest''), (''only_audio'', JBool False),
           (''target_dir'', JStr ''./downloads''), (''url'', JStr ''b'')]]"
  by (simp add: unified_download_tasks_def py_iter_def)

section \<open>The media fetch adapter: claims\<close>





end
